theory Spec2Isabelle
  imports Complex_Main "HOL-Library.Product_Lexorder" "HOL-Library.Multiset"
begin

section \<open>Python values used by the bank-statement analyzer\<close>

text \<open>
  The program is Python on top of pandas. Amounts are Python floats; they are modelled as
  real numbers (finite values), and \<open>NaN\<close> is modelled where pandas produces it from
  finite data: the mean of an empty column and the sample standard deviation of fewer
  than two values. Where the program only compares the results of its arithmetic (the
  scorer) the arithmetic is that of the real numbers. Where it rounds a sum or a mean to
  two decimals (the summary), the last bit of the double decides the result, and the
  float operations are parameters (\<open>float_ops\<close> below).
  Exceptions are values of \<open>error\<close>.
\<close>

datatype error = HTTPException nat string | IndexError | KeyError | ZeroDivisionError

datatype pyfloat = NaN | Num real

fun fsub :: "pyfloat \<Rightarrow> pyfloat \<Rightarrow> pyfloat" where
  "fsub (Num a) (Num b) = Num (a - b)"
| "fsub _ _ = NaN"

fun fmul :: "pyfloat \<Rightarrow> pyfloat \<Rightarrow> pyfloat" where
  "fmul (Num a) (Num b) = Num (a * b)"
| "fmul _ _ = NaN"

text \<open>Comparisons with \<open>NaN\<close> are false, whichever side it stands on.\<close>

fun flt :: "pyfloat \<Rightarrow> pyfloat \<Rightarrow> bool" where
  "flt (Num a) (Num b) = (a < b)"
| "flt _ _ = False"

fun fgt :: "pyfloat \<Rightarrow> pyfloat \<Rightarrow> bool" where
  "fgt (Num a) (Num b) = (a > b)"
| "fgt _ _ = False"

text \<open>Truth value of a float in \<open>if x\<close>: only zero is false; \<open>NaN\<close> is true.\<close>

fun truthy :: "pyfloat \<Rightarrow> bool" where
  "truthy (Num a) = (a \<noteq> 0)"
| "truthy NaN = True"

text \<open>
  \<open>a / b\<close>. A Python float raises \<open>ZeroDivisionError\<close> on a zero divisor (a numpy
  scalar would warn and go on); the model keeps the raising reading, so that a theorem
  that no error comes out covers both.
\<close>

fun py_div :: "pyfloat \<Rightarrow> pyfloat \<Rightarrow> error + pyfloat" where
  "py_div (Num a) (Num b) = (if b = 0 then Inl ZeroDivisionError else Inr (Num (a / b)))"
| "py_div NaN (Num b) = (if b = 0 then Inl ZeroDivisionError else Inr NaN)"
| "py_div _ NaN = Inr NaN"

text \<open>\<open>round(x, 0)\<close>: to the nearest whole number, ties to the even neighbour.\<close>

definition round_half_even :: "real \<Rightarrow> int" where
  "round_half_even x =
     (let f = \<lfloor>x\<rfloor>; d = x - of_int f
      in if d < 1 / 2 then f else if 1 / 2 < d then f + 1
         else if even f then f else f + 1)"

text \<open>
  The float operations whose results the program rounds to two decimals:
  \<open>round(x, 2)\<close> itself, \<open>Series.sum()\<close>, \<open>Series.mean()\<close> of a column with rows, and
  the difference of two floats. They are parameters of the model: a theorem that names
  them holds for whatever they compute on doubles.
\<close>

record float_ops =
  round2 :: "real \<Rightarrow> real"
  series_sum :: "real list \<Rightarrow> real"
  series_mean :: "real list \<Rightarrow> real"
  float_sub :: "real \<Rightarrow> real \<Rightarrow> real"

text \<open>\<open>Series.mean()\<close> and \<open>Series.std()\<close> (sample deviation, \<open>ddof = 1\<close>).\<close>

definition mean :: "real list \<Rightarrow> pyfloat" where
  "mean xs = (if xs = [] then NaN else Num (sum_list xs / real (length xs)))"

definition std :: "real list \<Rightarrow> pyfloat" where
  "std xs =
     (if length xs < 2 then NaN
      else let mu = sum_list xs / real (length xs)
           in Num (sqrt (sum_list (map (\<lambda>x. (x - mu)\<^sup>2) xs) / real (length xs - 1))))"

subsection \<open>Strings\<close>

text \<open>Strings are ASCII character lists. \<open>str.strip()\<close> removes white space at both ends.\<close>

definition py_isspace :: "char \<Rightarrow> bool" where
  "py_isspace c = (of_char c \<in> {9, 10, 11, 12, 13, 28, 29, 30, 31, 32 :: nat})"

definition strip :: "string \<Rightarrow> string" where
  "strip s = rev (dropWhile py_isspace (rev (dropWhile py_isspace s)))"

definition remove_commas :: "string \<Rightarrow> string" where
  "remove_commas s = filter (\<lambda>c. c \<noteq> CHR '','') s"

fun starts_with :: "string \<Rightarrow> string \<Rightarrow> bool" where
  "starts_with [] s = True"
| "starts_with (p # ps) [] = False"
| "starts_with (p # ps) (c # cs) = (p = c \<and> starts_with ps cs)"

text \<open>\<open>sub in s\<close> on strings: \<open>sub\<close> occurs in \<open>s\<close> as a contiguous piece.\<close>

fun py_in :: "string \<Rightarrow> string \<Rightarrow> bool" where
  "py_in sub [] = (sub = [])"
| "py_in sub (c # cs) = (starts_with sub (c # cs) \<or> py_in sub cs)"

fun join_space :: "string list \<Rightarrow> string" where
  "join_space [] = []"
| "join_space [s] = s"
| "join_space (s # t # ts) = s @ '' '' @ join_space (t # ts)"

subsection \<open>Dates: \<open>datetime.strptime(s, "%d/%m/%y")\<close>\<close>

text \<open>
  A date is (year, month, day), ordered lexicographically. The format compiles to the
  regular expression
  \<^verbatim>\<open>(3[0-1]|[1-2]\d|0[1-9]|[1-9]| [1-9])/(1[0-2]|0[1-9]|[1-9])/(\d\d)\<close>,
  which must match the whole string; a two-digit year up to 68 is in 2000..2068, a later
  one in 1969..1999, and a day the month does not have is a \<open>ValueError\<close> (\<open>None\<close>).
\<close>

type_synonym date = "nat \<times> nat \<times> nat"

definition is_digit :: "char \<Rightarrow> bool" where
  "is_digit c = (48 \<le> (of_char c :: nat) \<and> (of_char c :: nat) \<le> 57)"

definition digit_val :: "char \<Rightarrow> nat" where
  "digit_val c = of_char c - 48"

fun day_field :: "string \<Rightarrow> nat option" where
  "day_field [a] = (if is_digit a \<and> a \<noteq> CHR ''0'' then Some (digit_val a) else None)"
| "day_field [a, b] =
     (if a = CHR ''3'' \<and> (b = CHR ''0'' \<or> b = CHR ''1'') then Some (30 + digit_val b)
      else if (a = CHR ''1'' \<or> a = CHR ''2'') \<and> is_digit b then Some (10 * digit_val a + digit_val b)
      else if (a = CHR ''0'' \<or> a = CHR '' '') \<and> is_digit b \<and> b \<noteq> CHR ''0'' then Some (digit_val b)
      else None)"
| "day_field _ = None"

fun month_field :: "string \<Rightarrow> nat option" where
  "month_field [a] = (if is_digit a \<and> a \<noteq> CHR ''0'' then Some (digit_val a) else None)"
| "month_field [a, b] =
     (if a = CHR ''1'' \<and> (b = CHR ''0'' \<or> b = CHR ''1'' \<or> b = CHR ''2'') then Some (10 + digit_val b)
      else if a = CHR ''0'' \<and> is_digit b \<and> b \<noteq> CHR ''0'' then Some (digit_val b)
      else None)"
| "month_field _ = None"

fun year_field :: "string \<Rightarrow> nat option" where
  "year_field [a, b] =
     (if is_digit a \<and> is_digit b
      then (let y = 10 * digit_val a + digit_val b in Some (if y \<le> 68 then 2000 + y else 1900 + y))
      else None)"
| "year_field _ = None"

definition is_leap :: "nat \<Rightarrow> bool" where
  "is_leap y = (y mod 4 = 0 \<and> (y mod 100 \<noteq> 0 \<or> y mod 400 = 0))"

definition days_in_month :: "nat \<Rightarrow> nat \<Rightarrow> nat" where
  "days_in_month y m =
     (if m = 2 then (if is_leap y then 29 else 28)
      else if m = 4 \<or> m = 6 \<or> m = 9 \<or> m = 11 then 30 else 31)"

definition not_slash :: "char \<Rightarrow> bool" where
  "not_slash c = (c \<noteq> CHR ''/'')"

definition strptime_dmy :: "string \<Rightarrow> date option" where
  "strptime_dmy s =
     (case dropWhile not_slash s of
        [] \<Rightarrow> None
      | _ # r \<Rightarrow>
         (case dropWhile not_slash r of
            [] \<Rightarrow> None
          | _ # y \<Rightarrow>
             (case (day_field (takeWhile not_slash s), month_field (takeWhile not_slash r),
                    year_field y) of
                (Some dd, Some mm, Some yy) \<Rightarrow>
                  if dd \<le> days_in_month yy mm then Some (yy, mm, dd) else None
              | _ \<Rightarrow> None)))"

section \<open>The layout extractor (\<open>app/parser.py\<close>)\<close>

text \<open>
  A word of \<open>page.extract_words()\<close>: its text, left edge \<open>x0\<close> and vertical offset
  \<open>top\<close>. A page is the list of its words; the PDF is the list of its pages.
\<close>

record word =
  wtext :: string
  x0 :: real
  wtop :: real

record txn =
  date :: date
  narration :: string
  ref_no :: string
  value_date :: string
  debit :: real
  credit :: real
  balance :: real

text \<open>
  \<open>rows.setdefault(top, []).append(w)\<close>: the dictionary keeps its keys in the order of
  their first insertion, so it is an association list.
\<close>

fun setdefault_append :: "int \<Rightarrow> word \<Rightarrow> (int \<times> word list) list \<Rightarrow> (int \<times> word list) list" where
  "setdefault_append k w [] = [(k, [w])]"
| "setdefault_append k w ((k', ws) # rs) =
     (if k = k' then (k', ws @ [w]) # rs else (k', ws) # setdefault_append k w rs)"

definition group_rows :: "word list \<Rightarrow> (int \<times> word list) list" where
  "group_rows words =
     foldl (\<lambda>rows w. setdefault_append (round_half_even (wtop w)) w rows) [] words"

text \<open>The six column bands, in the order of the \<open>if\<close>/\<open>elif\<close> chain.\<close>

datatype column = Narration | RefNo | ValueDate | Withdrawal | Deposit | Balance

definition column_of :: "real \<Rightarrow> column option" where
  "column_of x =
     (if 60 < x \<and> x < 250 then Some Narration
      else if 250 \<le> x \<and> x < 330 then Some RefNo
      else if 330 \<le> x \<and> x < 390 then Some ValueDate
      else if 390 \<le> x \<and> x < 470 then Some Withdrawal
      else if 470 \<le> x \<and> x < 550 then Some Deposit
      else if 550 \<le> x then Some Balance
      else None)"

text \<open>The string a column variable holds after the loop: each of its words, then a space.\<close>

definition column_text :: "column \<Rightarrow> word list \<Rightarrow> string" where
  "column_text c ws =
     concat (map (\<lambda>w. wtext w @ '' '') (filter (\<lambda>w. column_of (x0 w) = Some c) ws))"

text \<open>
  \<open>float(s.replace(",", "").strip()) if s.strip() else 0.0\<close>. Python's \<open>float\<close> is the
  parameter \<open>pyfloat\<close>, with \<open>None\<close> for its \<open>ValueError\<close>: the theorems on the
  extractor hold whichever strings \<open>float\<close> accepts and whichever numbers it returns
  for them.
\<close>

definition amount :: "(string \<Rightarrow> real option) \<Rightarrow> string \<Rightarrow> real option" where
  "amount pyfloat s = (if strip s \<noteq> [] then pyfloat (strip (remove_commas s)) else Some 0)"

text \<open>
  One row of a page: the body of the loop over \<open>rows.values()\<close>. \<open>None\<close> is a row that
  adds no transaction (\<open>continue\<close>, a failed test, or an exception caught by the bare
  \<open>except\<close>). A row always has a word; the empty row is listed to keep the function total.
\<close>

definition parse_row :: "(string \<Rightarrow> real option) \<Rightarrow> word list \<Rightarrow> txn option" where
  "parse_row pyfloat ws =
     (let row_words = sort_key x0 ws;
          full_row = join_space (map wtext row_words)
      in if py_in ''Date'' full_row \<and> py_in ''Narration'' full_row then None
         else case row_words of
           [] \<Rightarrow> None
         | w # _ \<Rightarrow>
            (let first_word = wtext w
             in if CHR ''/'' \<in> set first_word \<and> 8 \<le> length first_word then
                  (case strptime_dmy first_word of
                     None \<Rightarrow> None
                   | Some d \<Rightarrow>
                      (case amount pyfloat (column_text Withdrawal row_words) of
                         None \<Rightarrow> None
                       | Some withdrawal \<Rightarrow>
                          (case amount pyfloat (column_text Deposit row_words) of
                             None \<Rightarrow> None
                           | Some deposit \<Rightarrow>
                              (case amount pyfloat (column_text Balance row_words) of
                                 None \<Rightarrow> None
                               | Some bal \<Rightarrow>
                                  Some \<lparr>date = d,
                                        narration = strip (column_text Narration row_words),
                                        ref_no = strip (column_text RefNo row_words),
                                        value_date = strip (column_text ValueDate row_words),
                                        debit = withdrawal, credit = deposit, balance = bal\<rparr>))))
                else None))"

definition parse_page :: "(string \<Rightarrow> real option) \<Rightarrow> word list \<Rightarrow> txn list" where
  "parse_page pyfloat words = List.map_filter (parse_row pyfloat) (map snd (group_rows words))"

definition parse_hdfc_pdf :: "(string \<Rightarrow> real option) \<Rightarrow> word list list \<Rightarrow> txn list" where
  "parse_hdfc_pdf pyfloat pages = concat (map (parse_page pyfloat) pages)"

text \<open>
  The value of \<open>float\<close> on a plain decimal: an optional sign, digits, and optionally a
  point and more digits. \<open>float\<close> accepts more than that (exponents, \<open>inf\<close>, \<open>nan\<close>,
  underscores); \<open>plain_decimal\<close> stands for it only in the concrete examples below,
  whose numbers are all plain decimals.
\<close>

fun digits_val :: "nat \<Rightarrow> string \<Rightarrow> nat" where
  "digits_val acc [] = acc"
| "digits_val acc (c # cs) = digits_val (10 * acc + digit_val c) cs"

definition unsigned_decimal :: "string \<Rightarrow> real option" where
  "unsigned_decimal s =
     (let ip = takeWhile is_digit s; r = dropWhile is_digit s
      in if ip = [] then None
         else case r of
           [] \<Rightarrow> Some (real (digits_val 0 ip))
         | c # fp \<Rightarrow>
            if c = CHR ''.'' \<and> fp \<noteq> [] \<and> list_all is_digit fp
            then Some (real (digits_val 0 ip) + real (digits_val 0 fp) / 10 ^ length fp)
            else None)"

fun plain_decimal :: "string \<Rightarrow> real option" where
  "plain_decimal [] = None"
| "plain_decimal (c # cs) =
     (if c = CHR ''-'' then map_option uminus (unsigned_decimal cs)
      else if c = CHR ''+'' then unsigned_decimal cs
      else unsigned_decimal (c # cs))"

section \<open>The derivation engine (\<open>app/main.py\<close>)\<close>

text \<open>
  The data frame is the list of its rows. \<open>df.groupby(df["date"].dt.date).last()\<close>
  has one row per distinct date, in ascending order of the date: the last row of the
  frame with that date. A frame without rows has no columns, and \<open>df["credit"]\<close> is a
  \<open>KeyError\<close> on it.
\<close>

definition groupby_last :: "txn list \<Rightarrow> txn list" where
  "groupby_last df =
     map (\<lambda>k. last (filter (\<lambda>t. date t = k) df)) (sort (remdups (map date df)))"

record summary =
  total_income :: real
  total_expense :: real
  net_flow :: real
  avg_balance :: pyfloat

definition generate_summary :: "float_ops \<Rightarrow> txn list \<Rightarrow> error + summary" where
  "generate_summary ops df =
     (if df = [] then Inl KeyError
      else let total_income = series_sum ops (map credit df);
               total_expense = series_sum ops (map debit df);
               net_flow = float_sub ops total_income total_expense;
               daily = groupby_last df;
               avg_balance = series_mean ops (map balance daily)
           in Inr \<lparr>total_income = round2 ops total_income,
                   total_expense = round2 ops total_expense,
                   net_flow = round2 ops net_flow,
                   avg_balance = Num (round2 ops avg_balance)\<rparr>)"

text \<open>
  \<open>generate_monthly_summary\<close>: one row per month (a period is (year, month); the code
  prints it as \<open>YYYY-MM\<close>), in ascending order, with the sums of the month's credits and
  debits. (The code also adds the month as a column to the frame it is given.)
\<close>

type_synonym period = "nat \<times> nat"

definition to_period_M :: "date \<Rightarrow> period" where
  "to_period_M d = (fst d, fst (snd d))"

record bucket =
  month :: period
  m_credit :: real
  m_debit :: real
  net :: real

definition month_rows :: "period \<Rightarrow> txn list \<Rightarrow> txn list" where
  "month_rows k df = filter (\<lambda>t. to_period_M (date t) = k) df"

definition generate_monthly_summary :: "txn list \<Rightarrow> bucket list" where
  "generate_monthly_summary df =
     map (\<lambda>k. \<lparr>month = k,
               m_credit = sum_list (map credit (month_rows k df)),
               m_debit = sum_list (map debit (month_rows k df)),
               net = sum_list (map credit (month_rows k df))
                     - sum_list (map debit (month_rows k df))\<rparr>)
         (sort (remdups (map (\<lambda>t. to_period_M (date t)) df)))"

subsection \<open>The loan readiness engine\<close>

text \<open>The summary as \<open>process_statement\<close> hands it on, with the two balances added.\<close>

record full_summary = summary +
  opening_balance :: real
  closing_balance :: real

text \<open>
  The score and the rating of the dictionary that \<open>generate_loan_readiness\<close> returns.
  The dictionary also reports \<open>avg_income\<close>, \<open>avg_expense\<close> and \<open>surplus\<close>, each
  rounded with \<open>round(x, 2)\<close>; these three entries are left out of the record.
\<close>

record loan_metrics =
  loan_score :: int
  rating :: string

definition avg_income :: "bucket list \<Rightarrow> pyfloat" where
  "avg_income monthly_summary =
     (if length monthly_summary \<noteq> 0 then mean (map m_credit monthly_summary) else Num 0)"

definition avg_expense :: "bucket list \<Rightarrow> pyfloat" where
  "avg_expense monthly_summary =
     (if length monthly_summary \<noteq> 0 then mean (map m_debit monthly_summary) else Num 0)"

definition surplus :: "bucket list \<Rightarrow> pyfloat" where
  "surplus monthly_summary = fsub (avg_income monthly_summary) (avg_expense monthly_summary)"

definition surplus_score :: "bucket list \<Rightarrow> int" where
  "surplus_score monthly_summary =
     (if fgt (surplus monthly_summary) (fmul (avg_income monthly_summary) (Num (25 / 100))) then 40
      else if fgt (surplus monthly_summary) (Num 0) then 25
      else 5)"

definition variation :: "bucket list \<Rightarrow> error + pyfloat" where
  "variation monthly_summary =
     (if truthy (avg_income monthly_summary)
      then py_div (std (map m_credit monthly_summary)) (avg_income monthly_summary)
      else Inr (Num 1))"

definition stability_score :: "pyfloat \<Rightarrow> int" where
  "stability_score v =
     (if flt v (Num (25 / 100)) then 30
      else if flt v (Num (5 / 10)) then 15
      else 5)"

definition balance_score :: "real \<Rightarrow> bucket list \<Rightarrow> int" where
  "balance_score closing monthly_summary =
     (if fgt (Num closing) (avg_expense monthly_summary) then 30
      else if fgt (Num closing) (fmul (avg_expense monthly_summary) (Num (5 / 10))) then 15
      else 5)"

definition rating_of :: "int \<Rightarrow> string" where
  "rating_of total_score =
     (if 80 \<le> total_score then ''Strong''
      else if 60 \<le> total_score then ''Moderate''
      else if 40 \<le> total_score then ''Risky''
      else ''High Risk'')"

definition generate_loan_readiness :: "full_summary \<Rightarrow> bucket list \<Rightarrow> error + loan_metrics" where
  "generate_loan_readiness summary monthly_summary =
     (case variation monthly_summary of
        Inl e \<Rightarrow> Inl e
      | Inr v \<Rightarrow>
         (let total_score = surplus_score monthly_summary + stability_score v
                            + balance_score (closing_balance summary) monthly_summary
          in Inr \<lparr>loan_score = total_score, rating = rating_of total_score\<rparr>))"

subsection \<open>\<open>process_statement\<close>\<close>

text \<open>
  \<open>df.sort_values(["date"])\<close> is the parameter \<open>sort_values\<close>. pandas sorts a single
  key with its default \<open>kind = "quicksort"\<close>, of which it promises the ascending order
  of the result and nothing on rows with equal keys; \<open>sorts_by_date\<close> is that promise.
\<close>

definition sorts_by_date :: "(txn list \<Rightarrow> txn list) \<Rightarrow> bool" where
  "sorts_by_date sort_values =
     (\<forall>df. mset (sort_values df) = mset df \<and> sorted (map date (sort_values df)))"

text \<open>
  The ledger normalizer, lines 129 to 144 of \<open>process_statement\<close>: the sorted frame, the
  opening balance reconstructed from its first row, the balance of its last row.
  \<open>df.iloc[0]\<close> on a frame without rows is an \<open>IndexError\<close>.
\<close>

definition ledger_normalizer ::
  "(txn list \<Rightarrow> txn list) \<Rightarrow> txn list \<Rightarrow> error + (txn list \<times> real \<times> real)" where
  "ledger_normalizer sort_values df0 =
     (let df = sort_values df0
      in case df of
           [] \<Rightarrow> Inl IndexError
         | first # _ \<Rightarrow>
            (let credit' = credit first; debit' = debit first; balance' = balance first;
                 opening = (if 0 < credit' then balance' - credit' else balance' + debit');
                 closing = balance (last df)
             in Inr (df, opening, closing)))"

definition process_statement ::
  "(string \<Rightarrow> real option) \<Rightarrow> (txn list \<Rightarrow> txn list) \<Rightarrow> float_ops \<Rightarrow> word list list
   \<Rightarrow> error + (txn list \<times> full_summary \<times> bucket list \<times> loan_metrics)" where
  "process_statement pyfloat sort_values ops pages =
     (let df = parse_hdfc_pdf pyfloat pages
      in if df = [] then Inl (HTTPException 400 ''No transactions detected.'')
         else case ledger_normalizer sort_values df of
           Inl e \<Rightarrow> Inl e
         | Inr (df, opening, closing) \<Rightarrow>
            (case generate_summary ops df of
               Inl e \<Rightarrow> Inl e
             | Inr s \<Rightarrow>
                (let monthly_summary = generate_monthly_summary df;
                     summary = \<lparr>total_income = total_income s,
                                total_expense = total_expense s,
                                net_flow = net_flow s, avg_balance = avg_balance s,
                                opening_balance = round2 ops opening,
                                closing_balance = round2 ops closing\<rparr>
                 in case generate_loan_readiness summary monthly_summary of
                      Inl e \<Rightarrow> Inl e
                    | Inr loan_metrics \<Rightarrow>
                        Inr (df, summary, monthly_summary, loan_metrics))))"

section \<open>\<open>app/analyzer.py\<close>\<close>

text \<open>
  \<open>analyze_transactions\<close> is imported by \<open>main.py\<close> and called nowhere. Its average
  balance is the mean over every row.
\<close>

definition analyze_avg_balance :: "float_ops \<Rightarrow> txn list \<Rightarrow> real" where
  "analyze_avg_balance ops df = round2 ops (series_mean ops (map balance df))"

section \<open>Words of the specification\<close>

text \<open>
  The rows that close a calendar day: a row of the ledger after which no row has the same
  date. One observation per day.
\<close>

fun day_final :: "txn list \<Rightarrow> txn list" where
  "day_final [] = []"
| "day_final (t # ts) = (if date t \<in> set (map date ts) then day_final ts else t # day_final ts)"

section \<open>Concrete inputs\<close>

definition wd :: "string \<Rightarrow> real \<Rightarrow> real \<Rightarrow> word" where
  "wd t x y = \<lparr>wtext = t, x0 = x, wtop = y\<rparr>"

text \<open>
  An instance of the float operations for the concrete examples below, and for them
  only: sums, means and differences of decimal numbers without rounding error, and the
  rounding of a decimal number to two places, ties to the even neighbour. It is not the
  arithmetic of the program, which works on doubles; no theorem about every ledger
  uses it. In the examples the sums are whole numbers or a single amount and the
  values rounded are whole numbers, 0.001 and 4/3, for which the double of the program
  rounds to the same two places (1000, 200, 4800, 4900, 0 and 1.33).
\<close>

definition decimal_round2 :: "real \<Rightarrow> real" where
  "decimal_round2 x = of_int (round_half_even (x * 100)) / 100"

definition decimal_ops :: float_ops where
  "decimal_ops =
     \<lparr>round2 = decimal_round2,
      series_sum = sum_list,
      series_mean = (\<lambda>xs. sum_list xs / real (length xs)),
      float_sub = (\<lambda>a b. a - b)\<rparr>"

text \<open>A page with the table header and a footer: no row starts with a date.\<close>

definition header_only_pages :: "word list list" where
  "header_only_pages =
     [[wd ''Date'' 30 50, wd ''Narration'' 70 50, wd ''Closing'' 560 50,
       wd ''Page'' 30 700, wd ''1'' 62 700]]"

text \<open>A scorer input: one month without credits or debits, a closing balance of 10.\<close>

definition idle_summary :: full_summary where
  "idle_summary =
     \<lparr>total_income = 0, total_expense = 0, net_flow = 0, avg_balance = Num 10,
      opening_balance = 10, closing_balance = 10\<rparr>"

definition idle_monthly :: "bucket list" where
  "idle_monthly = [\<lparr>month = (2024, 1), m_credit = 0, m_debit = 0, net = 0\<rparr>]"

definition idle_metrics :: loan_metrics where
  "idle_metrics = \<lparr>loan_score = 40, rating = ''Risky''\<rparr>"

text \<open>Scenario A of the specification: a credit, then a debit, in January 2024.\<close>

definition scenario_A_ledger :: "txn list" where
  "scenario_A_ledger =
     [\<lparr>date = (2024, 1, 5), narration = ''SALARY'', ref_no = '''', value_date = '''',
       debit = 0, credit = 1000, balance = 5000\<rparr>,
      \<lparr>date = (2024, 1, 20), narration = ''ATM'', ref_no = '''', value_date = '''',
       debit = 200, credit = 0, balance = 4800\<rparr>]"

definition scenario_A_bucket :: bucket where
  "scenario_A_bucket = \<lparr>month = (2024, 1), m_credit = 1000, m_debit = 200, net = 800\<rparr>"

text \<open>Scenario D: a single month in which every transaction is a debit.\<close>

definition debit_only_ledger :: "txn list" where
  "debit_only_ledger =
     [\<lparr>date = (2024, 1, 5), narration = ''ATM'', ref_no = '''', value_date = '''',
       debit = 200, credit = 0, balance = 4800\<rparr>,
      \<lparr>date = (2024, 1, 20), narration = ''UPI'', ref_no = '''', value_date = '''',
       debit = 300, credit = 0, balance = 4500\<rparr>]"

text \<open>
  Monthly buckets with the credits given and no debits, and with debits of 2 each, for
  the months of 2024 from January on.
\<close>

fun months_from :: "nat \<Rightarrow> real \<Rightarrow> real list \<Rightarrow> bucket list" where
  "months_from n d [] = []"
| "months_from n d (c # cs) =
     \<lparr>month = (2024, n), m_credit = c, m_debit = d, net = c - d\<rparr> # months_from (Suc n) d cs"

definition negative_income_months :: "bucket list" where
  "negative_income_months = months_from 1 0 [- 2, - 1, 0]"

definition zero_income_months :: "bucket list" where
  "zero_income_months = months_from 1 0 [- 1, 0, 1]"

definition low_income_months :: "bucket list" where
  "low_income_months = months_from 1 2 [0, 1, 2]"

definition high_income_months :: "bucket list" where
  "high_income_months = months_from 1 2 [3, 4, 5]"

definition metrics_of :: "int \<Rightarrow> string \<Rightarrow> loan_metrics" where
  "metrics_of score r = \<lparr>loan_score = score, rating = r\<rparr>"



text \<open>
  Scenario A with both transactions on one day, and a ledger of three days whose closing
  balances have the mean 4/3.
\<close>

definition same_day_ledger :: "txn list" where
  "same_day_ledger =
     [\<lparr>date = (2024, 1, 5), narration = ''SALARY'', ref_no = '''', value_date = '''',
       debit = 0, credit = 1000, balance = 5000\<rparr>,
      \<lparr>date = (2024, 1, 5), narration = ''ATM'', ref_no = '''', value_date = '''',
       debit = 200, credit = 0, balance = 4800\<rparr>]"

definition three_day_ledger :: "txn list" where
  "three_day_ledger =
     [\<lparr>date = (2024, 1, 5), narration = ''CASH'', ref_no = '''', value_date = '''',
       debit = 0, credit = 1, balance = 1\<rparr>,
      \<lparr>date = (2024, 1, 6), narration = ''CASH'', ref_no = '''', value_date = '''',
       debit = 0, credit = 1, balance = 2\<rparr>,
      \<lparr>date = (2024, 1, 7), narration = ''ATM'', ref_no = '''', value_date = '''',
       debit = 1, credit = 0, balance = 1\<rparr>]"







text \<open>The summaries of the three-day ledger and of the ledger with a tenth of a cent.\<close>

definition three_day_summary :: summary where
  "three_day_summary =
     \<lparr>total_income = 2, total_expense = 1, net_flow = 1, avg_balance = Num (133 / 100)\<rparr>"


section \<open>The scorer and the statement pipeline return\<close>

lemma py_div_nonzero: "truthy b \<Longrightarrow> \<exists>v. py_div a b = Inr v"
  by (cases a; cases b) auto

lemma variation_returns: "\<exists>v. variation ms = Inr v"
  by (simp add: variation_def py_div_nonzero)

lemma generate_loan_readiness_returns: "\<exists>m. generate_loan_readiness s ms = Inr m"
proof -
  obtain v where "variation ms = Inr v" using variation_returns by blast
  then show ?thesis by (simp add: generate_loan_readiness_def Let_def)
qed

lemma ledger_normalizer_no_http: "ledger_normalizer srt df \<noteq> Inl (HTTPException c m)"
  by (simp add: ledger_normalizer_def Let_def split: list.splits)

lemma generate_summary_no_http: "generate_summary ops df \<noteq> Inl (HTTPException c m)"
  by (simp add: generate_summary_def Let_def)

section \<open>The three sub-scores\<close>

lemma surplus_score_cases:
  "surplus_score ms = 40 \<or> surplus_score ms = 25 \<or> surplus_score ms = 5"
  by (simp add: surplus_score_def)

lemma stability_score_cases:
  "stability_score v = 30 \<or> stability_score v = 15 \<or> stability_score v = 5"
  by (simp add: stability_score_def)

lemma balance_score_cases:
  "balance_score c ms = 30 \<or> balance_score c ms = 15 \<or> balance_score c ms = 5"
  by (simp add: balance_score_def)

lemma scores_range:
  "15 \<le> surplus_score ms + stability_score v + balance_score c ms
   \<and> surplus_score ms + stability_score v + balance_score c ms \<le> 100"
  using surplus_score_cases[of ms] stability_score_cases[of v] balance_score_cases[of c ms]
  by linarith

lemma decimal_round2_int: "decimal_round2 (of_int n) = of_int n"
  by (simp add: decimal_round2_def round_half_even_def)

lemma decimal_ops_simps:
  "round2 decimal_ops = decimal_round2"
  "series_sum decimal_ops = sum_list"
  "series_mean decimal_ops xs = sum_list xs / real (length xs)"
  "float_sub decimal_ops a b = a - b"
  by (simp_all add: decimal_ops_def)

lemma idle_readiness: "generate_loan_readiness idle_summary idle_monthly = Inr idle_metrics"
  by (simp add: generate_loan_readiness_def variation_def avg_income_def avg_expense_def
      mean_def idle_monthly_def idle_summary_def idle_metrics_def surplus_score_def
      surplus_def stability_score_def balance_score_def rating_of_def)

section \<open>Averages of the monthly buckets\<close>

lemma avg_income_Num: "\<exists>a. avg_income ms = Num a"
  by (simp add: avg_income_def mean_def)

lemma avg_expense_Num: "\<exists>a. avg_expense ms = Num a"
  by (simp add: avg_expense_def mean_def)

lemma sum_list_all_zero: "(\<forall>x \<in> set xs. f x = (0::real)) \<Longrightarrow> sum_list (map f xs) = 0"
  by (induction xs) auto

lemma monthly_credit_zero:
  assumes "\<forall>t \<in> set df. credit t = 0"
  shows "\<forall>b \<in> set (generate_monthly_summary df). m_credit b = 0"
proof -
  have "sum_list (map credit (month_rows k df)) = 0" for k
    using assms by (intro sum_list_all_zero) (simp add: month_rows_def)
  then show ?thesis by (auto simp add: generate_monthly_summary_def)
qed

lemma avg_income_zero_credits:
  assumes "\<forall>b \<in> set ms. m_credit b = 0"
  shows "avg_income ms = Num 0"
  using assms sum_list_all_zero[of ms m_credit] by (simp add: avg_income_def mean_def)

lemma remdups_all_same: "xs \<noteq> [] \<Longrightarrow> \<forall>x \<in> set xs. x = k \<Longrightarrow> remdups xs = [k]"
proof (induction xs)
  case Nil
  then show ?case by simp
next
  case (Cons x xs)
  then show ?case by (cases xs) auto
qed

lemma single_month_summary:
  assumes "df \<noteq> []" and "\<forall>t \<in> set df. to_period_M (date t) = k"
  shows "generate_monthly_summary df =
          [\<lparr>month = k, m_credit = sum_list (map credit df), m_debit = sum_list (map debit df),
            net = sum_list (map credit df) - sum_list (map debit df)\<rparr>]"
proof -
  have r: "remdups (map (\<lambda>t. to_period_M (date t)) df) = [k]"
    using assms by (intro remdups_all_same) auto
  have m: "month_rows k df = df"
    using assms(2) by (simp add: month_rows_def)
  show ?thesis by (simp add: generate_monthly_summary_def r m)
qed

lemma single_bucket_variation:
  "\<exists>v. variation [b] = Inr v \<and> stability_score v = 5"
proof (cases "m_credit b = 0")
  case True
  then have "variation [b] = Inr (Num 1)"
    by (simp add: variation_def avg_income_def mean_def)
  then show ?thesis by (simp add: stability_score_def)
next
  case False
  then have "variation [b] = Inr NaN"
    by (simp add: variation_def avg_income_def mean_def std_def)
  then show ?thesis by (simp add: stability_score_def)
qed

section \<open>Monotonicity of the sub-scores\<close>

lemmas scorer_defs = generate_loan_readiness_def variation_def avg_income_def avg_expense_def
  mean_def std_def surplus_score_def surplus_def stability_score_def balance_score_def
  rating_of_def metrics_of_def idle_summary_def

lemma std_neg: "std (map m_credit negative_income_months) = Num 1"
  by (simp add: std_def negative_income_months_def One_nat_def)
lemma std_zero: "std (map m_credit zero_income_months) = Num 1"
  by (simp add: std_def zero_income_months_def One_nat_def)

lemma readiness_negative:
  "generate_loan_readiness idle_summary negative_income_months = Inr (metrics_of 65 ''Moderate'')"
  by (simp add: scorer_defs negative_income_months_def One_nat_def)

lemma readiness_zero:
  "generate_loan_readiness idle_summary zero_income_months = Inr (metrics_of 40 ''Risky'')"
  by (simp add: scorer_defs zero_income_months_def One_nat_def)

lemma loan_score_eq:
  "generate_loan_readiness s ms = Inr m \<Longrightarrow> variation ms = Inr v \<Longrightarrow>
   loan_score m = surplus_score ms + stability_score v + balance_score (closing_balance s) ms"
  by (auto simp add: generate_loan_readiness_def Let_def)

lemma std_nonneg: "std xs = Num d \<Longrightarrow> 0 \<le> d"
proof -
  assume a: "std xs = Num d"
  have "0 \<le> sum_list (map (\<lambda>x. (x - mu)\<^sup>2) xs)" for mu :: real
    by (rule sum_list_nonneg) auto
  with a show ?thesis
    by (auto simp add: std_def Let_def split: if_splits)
qed

lemma stability_score_ge_5: "5 \<le> stability_score v"
  by (simp add: stability_score_def)

lemma stability_score_antimono: "b \<le> a \<Longrightarrow> stability_score (Num a) \<le> stability_score (Num b)"
  by (simp add: stability_score_def)

lemma surplus_score_mono:
  assumes "avg_expense ms1 = avg_expense ms2"
    and "avg_income ms1 = Num i1" and "avg_income ms2 = Num i2" and "i1 \<le> i2"
  shows "surplus_score ms1 \<le> surplus_score ms2"
proof -
  obtain e where e: "avg_expense ms2 = Num e" using avg_expense_Num by blast
  show ?thesis using assms e by (simp add: surplus_score_def surplus_def)
qed

lemma balance_score_same:
  "avg_expense ms1 = avg_expense ms2 \<Longrightarrow> balance_score c ms1 = balance_score c ms2"
  by (simp add: balance_score_def)

lemma variation_mono:
  assumes "std (map m_credit ms1) = std (map m_credit ms2)"
    and "avg_income ms1 = Num i1" and "avg_income ms2 = Num i2"
    and "0 \<le> i1" and "i1 < i2"
    and "variation ms1 = Inr v1" and "variation ms2 = Inr v2"
  shows "stability_score v1 \<le> stability_score v2"
proof (cases "i1 = 0")
  case True
  with assms have "v1 = Num 1" by (simp add: variation_def)
  then have "stability_score v1 = 5" by (simp add: stability_score_def)
  then show ?thesis using stability_score_ge_5[of v2] by simp
next
  case False
  with assms have p1: "0 < i1" and p2: "0 < i2" by auto
  show ?thesis
  proof (cases "std (map m_credit ms2)")
    case NaN
    with assms p1 p2 have "v1 = NaN" "v2 = NaN" by (auto simp add: variation_def)
    then show ?thesis by simp
  next
    case (Num d)
    then have d: "0 \<le> d" by (rule std_nonneg)
    from Num assms p1 p2 have v: "v1 = Num (d / i1)" "v2 = Num (d / i2)"
      by (auto simp add: variation_def)
    have "d / i2 \<le> d / i1" using d p1 assms(5) by (simp add: frac_le)
    then show ?thesis unfolding v by (rule stability_score_antimono)
  qed
qed

lemma readiness_low:
  "generate_loan_readiness idle_summary low_income_months = Inr (metrics_of 40 ''Risky'')"
  by (simp add: scorer_defs low_income_months_def One_nat_def)

lemma readiness_high:
  "generate_loan_readiness idle_summary high_income_months = Inr (metrics_of 85 ''Strong'')"
  by (simp add: scorer_defs high_income_months_def One_nat_def)

section \<open>The groups of a frame\<close>










section \<open>The last row of each day\<close>

lemma day_final_subset: "set (day_final df) \<subseteq> set df"
  by (induction df) auto

lemma day_final_dates: "date ` set (day_final df) = date ` set df"
  by (induction df) auto

lemma day_final_distinct: "distinct (map date (day_final df))"
proof (induction df)
  case Nil
  show ?case by simp
next
  case (Cons t ts)
  show ?case
  proof (cases "date t \<in> set (map date ts)")
    case True
    with Cons show ?thesis by simp
  next
    case False
    then have "date t \<notin> date ` set (day_final ts)" using day_final_dates[of ts] by simp
    with Cons False show ?thesis by simp
  qed
qed

lemma last_filter_day_final:
  "u \<in> set (day_final df) \<Longrightarrow> last (filter (\<lambda>x. date x = date u) df) = u"
proof (induction df)
  case Nil
  then show ?case by simp
next
  case (Cons t ts)
  show ?case
  proof (cases "date t \<in> set (map date ts)")
    case True
    with Cons.prems have u: "u \<in> set (day_final ts)" by simp
    then have "u \<in> set ts" using day_final_subset by blast
    then have ne: "filter (\<lambda>x. date x = date u) ts \<noteq> []"
      by (auto simp add: filter_empty_conv)
    show ?thesis using Cons.IH[OF u] ne by simp
  next
    case False
    show ?thesis
    proof (cases "u \<in> set (day_final ts)")
      case True
      then have "u \<in> set ts" using day_final_subset by blast
      with False have "date t \<noteq> date u" by auto
      then show ?thesis using Cons.IH[OF True] by simp
    next
      case nu: False
      with Cons.prems \<open>date t \<notin> set (map date ts)\<close> have ut: "u = t" by simp
      have nf: "date x \<noteq> date t" if "x \<in> set ts" for x
        using that \<open>date t \<notin> set (map date ts)\<close> by (metis image_eqI set_map)
      have "filter (\<lambda>x. date x = date t) ts = []"
        by (simp add: filter_empty_conv nf)
      then show ?thesis using ut by simp
    qed
  qed
qed

lemma day_final_sorted: "sorted (map date df) \<Longrightarrow> sorted (map date (day_final df))"
proof (induction df)
  case Nil
  show ?case by simp
next
  case (Cons t ts)
  then have ih: "sorted (map date (day_final ts))" by simp
  have le: "\<forall>u \<in> set (day_final ts). date t \<le> date u"
    using Cons.prems day_final_subset[of ts] by auto
  show ?case using ih le by simp
qed

lemma groupby_last_day_final: "groupby_last df = sort_key date (day_final df)"
proof -
  let ?L = "sort_key date (day_final df)"
  let ?g = "\<lambda>k. last (filter (\<lambda>t. date t = k) df)"
  have inj: "inj_on date (set (day_final df))" and dd: "distinct (day_final df)"
    using day_final_distinct[of df] by (simp_all add: distinct_map)
  have "distinct (map date ?L)"
    using inj dd by (simp add: distinct_map)
  moreover have "sorted (map date ?L)" by simp
  moreover have "set (map date ?L) = set (sort (remdups (map date df)))"
    using day_final_dates[of df] by simp
  moreover have "sorted (sort (remdups (map date df)))" by simp
  moreover have "distinct (sort (remdups (map date df)))" by simp
  ultimately have k: "sort (remdups (map date df)) = map date ?L"
    by (metis sorted_distinct_set_unique)
  have "map ?g (map date ?L) = map (\<lambda>u. u) ?L"
    unfolding map_map
    by (rule map_cong) (simp_all add: last_filter_day_final)
  then show ?thesis by (simp add: groupby_last_def k)
qed

section \<open>The sorted frame\<close>

lemma sort_key_sorts_by_date: "sorts_by_date (sort_key date)"
  by (simp add: sorts_by_date_def)



section \<open>Rows and the transactions they give\<close>







lemma process_statement_parts:
  assumes "process_statement pyfloat sort_values ops pages = Inr (d, s, ms, lm)"
  shows "\<exists>ob cb g. ledger_normalizer sort_values (parse_hdfc_pdf pyfloat pages) = Inr (d, ob, cb)
          \<and> generate_summary ops d = Inr g
          \<and> opening_balance s = round2 ops ob \<and> closing_balance s = round2 ops cb
          \<and> total_income s = total_income g \<and> total_expense s = total_expense g
          \<and> net_flow s = net_flow g \<and> avg_balance s = avg_balance g
          \<and> ms = generate_monthly_summary d
          \<and> generate_loan_readiness s ms = Inr lm"
  using assms
  by (auto simp add: process_statement_def Let_def split: if_splits sum.splits prod.splits)

section \<open>C1: the opening and the closing balance\<close>




section \<open>C2: an empty ledger is a failure of its own\<close>

text \<open>
  Claim C2. \<open>process_statement\<close> raises \<open>HTTPException(400, "No transactions detected.")\<close>
  exactly when the extraction yields no transaction. The result is then the error
  alone: no summary, no monthly buckets and no loan metrics come with it. On every
  other input the result is not this error.
\<close>

theorem empty_ledger_raises:
  "(process_statement pyfloat sort_values ops pages
      = Inl (HTTPException 400 ''No transactions detected.''))
   = (parse_hdfc_pdf pyfloat pages = [])"
proof (cases "parse_hdfc_pdf pyfloat pages = []")
  case True
  then show ?thesis by (simp add: process_statement_def)
next
  case False
  obtain r where r: "ledger_normalizer sort_values (parse_hdfc_pdf pyfloat pages) = r" by simp
  show ?thesis
  proof (cases r)
    case (Inl e)
    with r False ledger_normalizer_no_http[of sort_values "parse_hdfc_pdf pyfloat pages"]
    show ?thesis by (auto simp add: process_statement_def)
  next
    case (Inr t)
    obtain df ob cb where t: "t = (df, ob, cb)" by (cases t) auto
    show ?thesis
    proof (cases "generate_summary ops df")
      case g: (Inl e)
      with r False Inr t generate_summary_no_http[of ops df]
      show ?thesis by (auto simp add: process_statement_def)
    next
      case g: (Inr sm)
      obtain lm where "generate_loan_readiness
          \<lparr>total_income = total_income sm, total_expense = total_expense sm,
           net_flow = net_flow sm, avg_balance = avg_balance sm,
           opening_balance = round2 ops ob, closing_balance = round2 ops cb\<rparr>
          (generate_monthly_summary df) = Inr lm"
        using generate_loan_readiness_returns by blast
      with r False Inr t g show ?thesis by (simp add: process_statement_def Let_def)
    qed
  qed
qed

theorem empty_ledger_raises_witness:
  "parse_hdfc_pdf plain_decimal header_only_pages = []
   \<and> (\<forall>ops. process_statement plain_decimal (sort_key date) ops header_only_pages
               = Inl (HTTPException 400 ''No transactions detected.''))"
proof -
  have e: "parse_hdfc_pdf plain_decimal header_only_pages = []" by code_simp
  with empty_ledger_raises[of plain_decimal "sort_key date" _ header_only_pages]
  show ?thesis by simp
qed

section \<open>C3: the total score, its range and the rating\<close>

text \<open>
  Claim C3. Whatever the summary and the monthly buckets, the score the scorer returns
  is the sum of the surplus, stability and balance sub-scores, it lies between 15 and
  100, and the rating is read off it with inclusive bounds: from 80 \<open>Strong\<close>, from 60
  \<open>Moderate\<close>, from 40 \<open>Risky\<close>, below 40 \<open>High Risk\<close>; so 80, 60 and 40 themselves
  are \<open>Strong\<close>, \<open>Moderate\<close> and \<open>Risky\<close>.
\<close>

theorem total_score_and_rating:
  assumes "generate_loan_readiness s ms = Inr m"
  shows "(\<exists>v. variation ms = Inr v
            \<and> loan_score m = surplus_score ms + stability_score v
                             + balance_score (closing_balance s) ms)
         \<and> 15 \<le> loan_score m \<and> loan_score m \<le> 100
         \<and> rating m = rating_of (loan_score m)
         \<and> (80 \<le> loan_score m \<longrightarrow> rating m = ''Strong'')
         \<and> (60 \<le> loan_score m \<and> loan_score m < 80 \<longrightarrow> rating m = ''Moderate'')
         \<and> (40 \<le> loan_score m \<and> loan_score m < 60 \<longrightarrow> rating m = ''Risky'')
         \<and> (loan_score m < 40 \<longrightarrow> rating m = ''High Risk'')
         \<and> rating_of 80 = ''Strong'' \<and> rating_of 60 = ''Moderate''
         \<and> rating_of 40 = ''Risky'' \<and> rating_of 39 = ''High Risk''"
proof -
  obtain v where v: "variation ms = Inr v" using variation_returns by blast
  with assms have m: "m = \<lparr>loan_score = surplus_score ms + stability_score v
                             + balance_score (closing_balance s) ms,
        rating = rating_of (surplus_score ms + stability_score v
                             + balance_score (closing_balance s) ms)\<rparr>"
    by (simp add: generate_loan_readiness_def Let_def)
  have total: "loan_score m = surplus_score ms + stability_score v
                             + balance_score (closing_balance s) ms"
    by (simp add: m)
  have rng: "15 \<le> loan_score m \<and> loan_score m \<le> 100"
    using scores_range[of ms v "closing_balance s"] total by simp
  have rt: "rating m = rating_of (loan_score m)" by (simp add: m)
  show ?thesis using v total rng rt by (simp add: rating_of_def)
qed

theorem total_score_and_rating_witness:
  "generate_loan_readiness idle_summary idle_monthly = Inr idle_metrics
   \<and> loan_score idle_metrics = 40 \<and> rating idle_metrics = ''Risky''
   \<and> 15 \<le> loan_score idle_metrics \<and> loan_score idle_metrics \<le> 100
   \<and> rating idle_metrics = rating_of (loan_score idle_metrics)"
proof -
  note t = total_score_and_rating[OF idle_readiness]
  from t have rng: "15 \<le> loan_score idle_metrics \<and> loan_score idle_metrics \<le> 100"
    by blast
  from t have rt: "rating idle_metrics = rating_of (loan_score idle_metrics)"
    by blast
  have sc: "loan_score idle_metrics = 40" by (simp add: idle_metrics_def)
  have ra: "rating idle_metrics = ''Risky''" by (simp add: idle_metrics_def)
  show ?thesis using idle_readiness rng rt sc ra by blast
qed

section \<open>C4: the coefficient of variation and its guard\<close>

text \<open>
  Claim C4. For every list of monthly buckets the average income is a number; when it
  is 0 the variation is 1, and otherwise it is the standard deviation of the bucket
  credits divided by the average income (\<open>NaN\<close> when the deviation is \<open>NaN\<close>). The
  division is never by zero, so the scorer always returns its metrics. For a ledger in
  which every transaction has credit 0, the average income is 0 and the stability score
  is 5.
\<close>

theorem variation_guarded:
  "(\<exists>a. avg_income ms = Num a)
   \<and> (avg_income ms = Num 0 \<longrightarrow> variation ms = Inr (Num 1))
   \<and> (\<forall>a sd. avg_income ms = Num a \<and> a \<noteq> 0 \<and> std (map m_credit ms) = Num sd
         \<longrightarrow> variation ms = Inr (Num (sd / a)))
   \<and> (\<forall>a. avg_income ms = Num a \<and> a \<noteq> 0 \<and> std (map m_credit ms) = NaN
         \<longrightarrow> variation ms = Inr NaN)
   \<and> variation ms \<noteq> Inl ZeroDivisionError
   \<and> (\<exists>m. generate_loan_readiness s ms = Inr m)
   \<and> ((\<forall>t \<in> set df. credit t = 0)
        \<longrightarrow> avg_income (generate_monthly_summary df) = Num 0
          \<and> (\<exists>v. variation (generate_monthly_summary df) = Inr v \<and> stability_score v = 5))"
proof -
  have a: "\<exists>a. avg_income ms = Num a" by (rule avg_income_Num)
  have b: "avg_income ms = Num 0 \<longrightarrow> variation ms = Inr (Num 1)"
    by (simp add: variation_def)
  have c: "\<forall>a sd. avg_income ms = Num a \<and> a \<noteq> 0 \<and> std (map m_credit ms) = Num sd
         \<longrightarrow> variation ms = Inr (Num (sd / a))"
    by (simp add: variation_def)
  have d: "\<forall>a. avg_income ms = Num a \<and> a \<noteq> 0 \<and> std (map m_credit ms) = NaN
         \<longrightarrow> variation ms = Inr NaN"
    by (simp add: variation_def)
  have e: "variation ms \<noteq> Inl ZeroDivisionError"
    using variation_returns[of ms] by auto
  have f: "\<exists>m. generate_loan_readiness s ms = Inr m"
    by (rule generate_loan_readiness_returns)
  have g: "(\<forall>t \<in> set df. credit t = 0)
        \<longrightarrow> avg_income (generate_monthly_summary df) = Num 0
          \<and> (\<exists>v. variation (generate_monthly_summary df) = Inr v \<and> stability_score v = 5)"
  proof
    assume h: "\<forall>t \<in> set df. credit t = 0"
    have z: "avg_income (generate_monthly_summary df) = Num 0"
      using monthly_credit_zero[OF h] by (rule avg_income_zero_credits)
    then have "variation (generate_monthly_summary df) = Inr (Num 1)"
      by (simp add: variation_def)
    moreover have "stability_score (Num 1) = 5" by (simp add: stability_score_def)
    ultimately show "avg_income (generate_monthly_summary df) = Num 0
          \<and> (\<exists>v. variation (generate_monthly_summary df) = Inr v \<and> stability_score v = 5)"
      using z by blast
  qed
  show ?thesis using a b c d e f g by blast
qed

theorem variation_guarded_witness:
  "list_all (\<lambda>t. credit t = 0) debit_only_ledger
   \<and> avg_income (generate_monthly_summary debit_only_ledger) = Num 0
   \<and> (\<exists>v. variation (generate_monthly_summary debit_only_ledger) = Inr v
          \<and> stability_score v = 5)"
proof -
  have h: "\<forall>t \<in> set debit_only_ledger. credit t = 0"
    by (simp add: debit_only_ledger_def)
  have l: "list_all (\<lambda>t. credit t = 0) debit_only_ledger"
    by (simp add: debit_only_ledger_def)
  from variation_guarded[where df = debit_only_ledger and ms = idle_monthly and s = idle_summary] h
  have "avg_income (generate_monthly_summary debit_only_ledger) = Num 0
   \<and> (\<exists>v. variation (generate_monthly_summary debit_only_ledger) = Inr v
          \<and> stability_score v = 5)"
    by blast
  with l show ?thesis by blast
qed

section \<open>C5: the order of the rows of one date\<close>

text \<open>
  Claim C5 says that the normalizer sorts by date and keeps the rows of one date in the
  order of the extraction. The code calls \<open>df.sort_values(["date"])\<close>, which for a
  single key runs pandas' default \<open>kind = "quicksort"\<close>; pandas names \<open>mergesort\<close> and
  \<open>stable\<close> as its only stable kinds. The result is ordered by date, and that is all
  \<open>sorts_by_date\<close> assumes of it in the theorems on \<open>process_statement\<close>. The order
  of same-day rows is what \<open>df.iloc[0]\<close>, \<open>df.iloc[-1]\<close> and
  \<open>groupby(...).last()\<close> rest on for the opening balance, the closing balance and
  the daily closing balances.

  A stable sort by date keeps the rows of each date in their order: what
  \<open>sort_values(["date"], kind="stable")\<close> would do.
\<close>

lemma stable_sort_keeps_days:
  "sorts_by_date (sort_key date)
   \<and> filter (\<lambda>t. date t = k) (sort_key date df) = filter (\<lambda>t. date t = k) df"
  by (simp add: sort_key_sorts_by_date sort_key_stable)

text \<open>
  The order by date alone does not fix the order of the rows of one date: sorting the
  reversed frame orders by date as well, and swaps two rows of one day.
\<close>

lemma tie_order_not_promised:
  "sorts_by_date (\<lambda>df. sort_key date (rev df))
   \<and> sort_key date (rev same_day_ledger) = rev same_day_ledger
   \<and> rev same_day_ledger \<noteq> same_day_ledger"
  by (simp add: sorts_by_date_def same_day_ledger_def)

section \<open>C6: the amounts of an emitted transaction\<close>




section \<open>C7: the average balance is taken over the days\<close>

text \<open>
  Claim C7, amended. For every ledger with rows, \<open>avg_balance\<close> of the summary is
  \<open>round(m, 2)\<close>, where \<open>m\<close> is the mean pandas takes of one balance per calendar day:
  the balance of the last row of that day in the ledger, the days in ascending order,
  which is the order of the ledger itself when it is sorted by date. Rows that are not
  the last of their day do not contribute. The claim as stated leaves out the rounding.
\<close>

theorem avg_balance_daily_last:
  assumes "df \<noteq> []"
  shows "\<exists>s. generate_summary ops df = Inr s
           \<and> avg_balance s
               = Num (round2 ops (series_mean ops (map balance (sort_key date (day_final df)))))
           \<and> (sorted (map date df) \<longrightarrow> sort_key date (day_final df) = day_final df)"
proof -
  have a: "sorted (map date df) \<longrightarrow> sort_key date (day_final df) = day_final df"
    by (simp add: day_final_sorted sort_key_id_if_sorted)
  show ?thesis using assms a
    by (simp add: generate_summary_def Let_def groupby_last_day_final)
qed

text \<open>
  On a ledger with two rows on one day only the second balance counts, while the
  mean over every row (what \<open>analyze_transactions\<close> computes) differs.
\<close>

theorem avg_balance_daily_last_witness:
  "same_day_ledger \<noteq> []
   \<and> sorted (map date same_day_ledger)
   \<and> sort_key date (day_final same_day_ledger) = day_final same_day_ledger
   \<and> map balance (day_final same_day_ledger) = [4800]
   \<and> (\<exists>s. generate_summary decimal_ops same_day_ledger = Inr s \<and> avg_balance s = Num 4800)
   \<and> analyze_avg_balance decimal_ops same_day_ledger = 4900"
proof -
  have n: "same_day_ledger \<noteq> []" by (simp add: same_day_ledger_def)
  have o: "sorted (map date same_day_ledger)" by (simp add: same_day_ledger_def)
  have d: "map balance (day_final same_day_ledger) = [4800]"
    by (simp add: same_day_ledger_def)
  have r: "decimal_round2 4800 = 4800" using decimal_round2_int[of 4800] by simp
  from avg_balance_daily_last[OF n, of decimal_ops] o
  obtain s where g: "generate_summary decimal_ops same_day_ledger = Inr s"
    and v: "avg_balance s = Num (round2 decimal_ops (series_mean decimal_ops
              (map balance (sort_key date (day_final same_day_ledger)))))"
    and e: "sort_key date (day_final same_day_ledger) = day_final same_day_ledger"
    by blast
  have "avg_balance s = Num 4800" unfolding v e d by (simp add: decimal_ops_simps r)
  with g
  have a: "\<exists>s. generate_summary decimal_ops same_day_ledger = Inr s \<and> avg_balance s = Num 4800"
    by blast
  have r': "decimal_round2 4900 = 4900" using decimal_round2_int[of 4900] by simp
  have b: "analyze_avg_balance decimal_ops same_day_ledger = 4900"
    by (simp add: analyze_avg_balance_def same_day_ledger_def decimal_ops_simps r')
  show ?thesis using n o e d a b by blast
qed

text \<open>
  The claim as stated fails on three days with the closing balances 1, 2 and 1: their
  mean is 4/3 and \<open>avg_balance\<close> is 1.33.
\<close>

theorem avg_balance_rounding_counterexample:
  "map balance (day_final three_day_ledger) = [1, 2, 1]
   \<and> series_mean decimal_ops [1, 2, 1] = 4 / 3
   \<and> generate_summary decimal_ops three_day_ledger = Inr three_day_summary
   \<and> avg_balance three_day_summary = Num (133 / 100)
   \<and> (133 / 100 :: real) \<noteq> 4 / 3"
proof -
  have d: "map balance (day_final three_day_ledger) = [1, 2, 1]"
    by (simp add: three_day_ledger_def)
  have m: "series_mean decimal_ops [1, 2, 1] = 4 / 3"
    by (simp add: decimal_ops_simps)
  have g: "generate_summary decimal_ops three_day_ledger = Inr three_day_summary"
    by (simp add: generate_summary_def three_day_ledger_def groupby_last_def
        decimal_ops_simps decimal_round2_def round_half_even_def three_day_summary_def)
  have a: "avg_balance three_day_summary = Num (133 / 100)"
    by (simp add: three_day_summary_def)
  show ?thesis using d m g a by simp
qed

section \<open>C8: the monthly buckets and the totals of the summary\<close>




section \<open>C9: a higher average income does not lower the score\<close>

text \<open>
  Claim C9, amended. Take two scorer inputs with the same average expense, the same
  closing balance and the same standard deviation of the bucket credits. If the first
  has a non-negative average income and the second a strictly greater one, the score of
  the second is at least the score of the first. The claim as stated drops the
  condition that the first average income is non-negative; the scorer divides the
  deviation by the average income, so a negative average income gives a negative
  variation and the top stability score, which is lost when the income rises to 0.
\<close>

theorem score_monotone_in_income:
  assumes "avg_expense ms1 = avg_expense ms2"
    and "closing_balance s1 = closing_balance s2"
    and "std (map m_credit ms1) = std (map m_credit ms2)"
    and "avg_income ms1 = Num i1" and "avg_income ms2 = Num i2"
    and "0 \<le> i1" and "i1 < i2"
    and "generate_loan_readiness s1 ms1 = Inr r1"
    and "generate_loan_readiness s2 ms2 = Inr r2"
  shows "loan_score r1 \<le> loan_score r2"
proof -
  obtain v1 where v1: "variation ms1 = Inr v1" using variation_returns by blast
  obtain v2 where v2: "variation ms2 = Inr v2" using variation_returns by blast
  have a: "surplus_score ms1 \<le> surplus_score ms2"
    using assms(1,4,5,7) by (intro surplus_score_mono[of ms1 ms2 i1 i2]) auto
  have b: "stability_score v1 \<le> stability_score v2"
    using assms(3,4,5,6,7) v1 v2 by (rule variation_mono)
  have c: "balance_score (closing_balance s1) ms1 = balance_score (closing_balance s2) ms2"
    using assms(1,2) balance_score_same[of ms1 ms2] by simp
  show ?thesis
    using a b c loan_score_eq[OF assms(8) v1] loan_score_eq[OF assms(9) v2] by linarith
qed

theorem score_monotone_in_income_witness:
  "avg_expense low_income_months = avg_expense high_income_months
   \<and> closing_balance idle_summary = closing_balance idle_summary
   \<and> std (map m_credit low_income_months) = std (map m_credit high_income_months)
   \<and> avg_income low_income_months = Num 1 \<and> avg_income high_income_months = Num 4
   \<and> (0::real) \<le> 1 \<and> (1::real) < 4
   \<and> generate_loan_readiness idle_summary low_income_months = Inr (metrics_of 40 ''Risky'')
   \<and> generate_loan_readiness idle_summary high_income_months = Inr (metrics_of 85 ''Strong'')
   \<and> loan_score (metrics_of 40 ''Risky'') \<le> loan_score (metrics_of 85 ''Strong'')"
proof -
  have a: "avg_expense low_income_months = avg_expense high_income_months"
    by (simp add: avg_expense_def mean_def low_income_months_def high_income_months_def)
  have b: "std (map m_credit low_income_months) = std (map m_credit high_income_months)"
    by (simp add: std_def low_income_months_def high_income_months_def One_nat_def)
  have c: "avg_income low_income_months = Num 1"
    by (simp add: avg_income_def mean_def low_income_months_def)
  have d: "avg_income high_income_months = Num 4"
    by (simp add: avg_income_def mean_def high_income_months_def)
  have e: "(0::real) \<le> 1" and f: "(1::real) < 4" by simp_all
  have g: "loan_score (metrics_of 40 ''Risky'') \<le> loan_score (metrics_of 85 ''Strong'')"
    using score_monotone_in_income[OF a refl b c d e f readiness_low readiness_high] .
  show ?thesis using a b c d g readiness_low readiness_high by simp
qed

text \<open>
  The claim as stated fails for bucket credits \<open>-2, -1, 0\<close> against \<open>-1, 0, 1\<close>: the
  deviation is 1 in both, the average income rises from \<open>-1\<close> to 0 and the score falls
  from 65 to 40. The extractor accepts a negative amount in the deposit column, so such
  buckets can reach the scorer.
\<close>

theorem income_counterexample:
  "avg_expense negative_income_months = avg_expense zero_income_months
   \<and> std (map m_credit negative_income_months) = std (map m_credit zero_income_months)
   \<and> avg_income negative_income_months = Num (- 1)
   \<and> avg_income zero_income_months = Num 0
   \<and> generate_loan_readiness idle_summary negative_income_months
       = Inr (metrics_of 65 ''Moderate'')
   \<and> generate_loan_readiness idle_summary zero_income_months
       = Inr (metrics_of 40 ''Risky'')
   \<and> loan_score (metrics_of 40 ''Risky'') < loan_score (metrics_of 65 ''Moderate'')"
proof -
  have a: "avg_expense negative_income_months = avg_expense zero_income_months"
    by (simp add: avg_expense_def mean_def negative_income_months_def zero_income_months_def)
  have b: "std (map m_credit negative_income_months) = std (map m_credit zero_income_months)"
    by (simp add: std_neg std_zero)
  have c: "avg_income negative_income_months = Num (- 1)"
    by (simp add: avg_income_def mean_def negative_income_months_def)
  have d: "avg_income zero_income_months = Num 0"
    by (simp add: avg_income_def mean_def zero_income_months_def)
  have e: "loan_score (metrics_of 40 ''Risky'') < loan_score (metrics_of 65 ''Moderate'')"
    by (simp add: metrics_of_def)
  show ?thesis using a b c d e readiness_negative readiness_zero by blast
qed

section \<open>C10: one monthly bucket never scores above 5 for stability\<close>

text \<open>
  Claim C10. When the monthly summary is a single bucket with a nonzero credit total,
  the sample standard deviation of that one value is \<open>NaN\<close>, so is the variation, both
  comparisons \<open>variation < 0.25\<close> and \<open>variation < 0.5\<close> are false, and the stability
  score is 5. A non-empty ledger whose transactions all fall in one month has exactly
  one bucket and a stability score of 5, whatever its income.
\<close>

theorem single_bucket_stability:
  "(m_credit b \<noteq> 0 \<longrightarrow>
       std (map m_credit [b]) = NaN \<and> variation [b] = Inr NaN
       \<and> \<not> flt NaN (Num (25 / 100)) \<and> \<not> flt NaN (Num (5 / 10))
       \<and> stability_score NaN = 5)
   \<and> (df \<noteq> [] \<and> (\<forall>t \<in> set df. to_period_M (date t) = k) \<longrightarrow>
       length (generate_monthly_summary df) = 1
       \<and> (\<exists>v. variation (generate_monthly_summary df) = Inr v \<and> stability_score v = 5))"
proof -
  have a: "m_credit b \<noteq> 0 \<longrightarrow>
       std (map m_credit [b]) = NaN \<and> variation [b] = Inr NaN
       \<and> \<not> flt NaN (Num (25 / 100)) \<and> \<not> flt NaN (Num (5 / 10))
       \<and> stability_score NaN = 5"
    by (simp add: variation_def avg_income_def mean_def std_def stability_score_def)
  have b: "df \<noteq> [] \<and> (\<forall>t \<in> set df. to_period_M (date t) = k) \<longrightarrow>
       length (generate_monthly_summary df) = 1
       \<and> (\<exists>v. variation (generate_monthly_summary df) = Inr v \<and> stability_score v = 5)"
  proof
    assume h: "df \<noteq> [] \<and> (\<forall>t \<in> set df. to_period_M (date t) = k)"
    then have s: "generate_monthly_summary df =
          [\<lparr>month = k, m_credit = sum_list (map credit df), m_debit = sum_list (map debit df),
            net = sum_list (map credit df) - sum_list (map debit df)\<rparr>]"
      using single_month_summary by blast
    show "length (generate_monthly_summary df) = 1
       \<and> (\<exists>v. variation (generate_monthly_summary df) = Inr v \<and> stability_score v = 5)"
      using single_bucket_variation by (simp add: s)
  qed
  show ?thesis using a b by blast
qed

theorem single_bucket_stability_witness:
  "m_credit scenario_A_bucket \<noteq> 0
   \<and> std (map m_credit [scenario_A_bucket]) = NaN
   \<and> variation [scenario_A_bucket] = Inr NaN
   \<and> stability_score NaN = 5
   \<and> scenario_A_ledger \<noteq> []
   \<and> list_all (\<lambda>t. to_period_M (date t) = (2024, 1)) scenario_A_ledger
   \<and> length (generate_monthly_summary scenario_A_ledger) = 1
   \<and> (\<exists>v. variation (generate_monthly_summary scenario_A_ledger) = Inr v
          \<and> stability_score v = 5)"
proof -
  have c: "m_credit scenario_A_bucket \<noteq> 0" by (simp add: scenario_A_bucket_def)
  have n: "scenario_A_ledger \<noteq> []" by (simp add: scenario_A_ledger_def)
  have l: "list_all (\<lambda>t. to_period_M (date t) = (2024, 1)) scenario_A_ledger"
    by (simp add: scenario_A_ledger_def to_period_M_def)
  have h: "\<forall>t \<in> set scenario_A_ledger. to_period_M (date t) = (2024, 1)"
    by (simp add: scenario_A_ledger_def to_period_M_def)
  note t = single_bucket_stability[where b = scenario_A_bucket and df = scenario_A_ledger
      and k = "(2024, 1)"]
  from t c have a: "std (map m_credit [scenario_A_bucket]) = NaN
      \<and> variation [scenario_A_bucket] = Inr NaN \<and> stability_score NaN = 5"
    by blast
  from t n h have b: "length (generate_monthly_summary scenario_A_ledger) = 1
   \<and> (\<exists>v. variation (generate_monthly_summary scenario_A_ledger) = Inr v
          \<and> stability_score v = 5)"
    by blast
  show ?thesis using c n l a b by blast
qed

end
